theory Spec2Isabelle
  imports Main
begin

section \<open>Data model of the workflow definitions\<close>

text \<open>
  Each of the three Python modules under \<^verbatim>\<open>src/dags\<close> builds one workflow object:
  it binds a dictionary \<^verbatim>\<open>default_args\<close>, opens \<^verbatim>\<open>with DAG(...) as dag:\<close>, creates
  operators inside the block (which registers them with the workflow, in creation order)
  and, in the third file, chains them with \<^verbatim>\<open>>>\<close>. The modules contain no branch and
  no loop, so every module is a closed term of the types below.
\<close>

text \<open>
  \<^verbatim>\<open>datetime(y, m, d)\<close> and \<^verbatim>\<open>timedelta(minutes=n)\<close>: the three positional arguments
  of the datetime as written, and the duration normalised to seconds as Python does.
\<close>

record datetime =
  year :: int
  month :: int
  day :: int

definition datetime :: "int \<Rightarrow> int \<Rightarrow> int \<Rightarrow> datetime" where
  "datetime y m d = \<lparr>year = y, month = m, day = d\<rparr>"

definition timedelta_minutes :: "int \<Rightarrow> int" where
  "timedelta_minutes n = 60 * n"

text \<open>The values that occur in a \<^verbatim>\<open>default_args\<close> dictionary.\<close>

datatype arg_value = StrV string | IntV int | TimedeltaV int

type_synonym args = "string \<rightharpoonup> arg_value"

text \<open>
  Operators: \<^verbatim>\<open>BashOperator(task_id, bash_command)\<close> and
  \<^verbatim>\<open>SQLExecuteQueryOperator(task_id, conn_id, sql)\<close>.
\<close>

datatype operator_kind =
    BashOperator string
  | SQLExecuteQueryOperator string string

record task =
  task_id :: string
  operator :: operator_kind

text \<open>
  The workflow object. \<^verbatim>\<open>description\<close> and \<^verbatim>\<open>start_date\<close> are optional keyword
  arguments of \<^verbatim>\<open>DAG\<close>; \<^verbatim>\<open>tasks\<close> holds the registered operators in creation
  order and \<^verbatim>\<open>edges\<close> the declared (upstream, downstream) pairs of task ids, in
  declaration order.
\<close>

record dag =
  dag_id :: string
  default_args :: args
  description :: "string option"
  start_date :: "datetime option"
  schedule :: string
  catchup :: bool
  tasks :: "task list"
  edges :: "(string \<times> string) list"

definition DAG ::
  "string \<Rightarrow> args \<Rightarrow> string option \<Rightarrow> datetime option \<Rightarrow> string \<Rightarrow> bool \<Rightarrow> dag" where
  "DAG i a d s c k =
     \<lparr>dag_id = i, default_args = a, description = d, start_date = s,
      schedule = c, catchup = k, tasks = [], edges = []\<rparr>"

text \<open>Creating an operator inside the \<^verbatim>\<open>with\<close> block appends it to the workflow.\<close>

definition add_task :: "task \<Rightarrow> dag \<Rightarrow> dag" where
  "add_task t g = g\<lparr>tasks := tasks g @ [t]\<rparr>"

text \<open>
  \<^verbatim>\<open>a >> b\<close> declares \<^verbatim>\<open>b\<close> downstream of \<^verbatim>\<open>a\<close> and evaluates to \<^verbatim>\<open>b\<close>, so that
  \<^verbatim>\<open>a >> b >> c\<close>, which Python parses as \<^verbatim>\<open>(a >> b) >> c\<close>, declares two edges.
\<close>

definition rshift :: "task \<Rightarrow> task \<Rightarrow> dag \<Rightarrow> task \<times> dag" where
  "rshift a b g = (b, g\<lparr>edges := edges g @ [(task_id a, task_id b)]\<rparr>)"

section \<open>The three modules\<close>

definition NL :: string where
  "NL = [CHR 0x0A]"

subsection \<open>\<^verbatim>\<open>dag_with_catchup_and_backfill.py\<close>\<close>

definition catchup_default_args :: args where
  "catchup_default_args = map_of
     [(''owner'', StrV ''afrith''),
      (''retries'', IntV 5),
      (''retry_delay'', TimedeltaV (timedelta_minutes 2))]"

definition catchup_task1 :: task where
  "catchup_task1 =
     \<lparr>task_id = ''task1'',
      operator = BashOperator ''echo This is a simple bash command!''\<rparr>"

definition dag_with_catchup_and_backfill_v02 :: dag where
  "dag_with_catchup_and_backfill_v02 =
     add_task catchup_task1
       (DAG ''dag_with_catchup_and_backfill_v02'' catchup_default_args
          (Some ''DAG with catchup and backfill example'')
          (Some (datetime 2025 12 21)) ''@daily'' True)"

subsection \<open>\<^verbatim>\<open>dag_with_cron_expression.py\<close>\<close>

definition cron_default_args :: args where
  "cron_default_args = map_of
     [(''owner'', StrV ''afrith''),
      (''retries'', IntV 5),
      (''retry_delay'', TimedeltaV (timedelta_minutes 5))]"

definition cron_task1 :: task where
  "cron_task1 =
     \<lparr>task_id = ''task1'',
      operator = BashOperator ''echo dag with cron expression!''\<rparr>"

text \<open>The bare expression statement \<^verbatim>\<open>task1\<close> that ends the block declares nothing.\<close>

definition dag_with_cron_expression_v04 :: dag where
  "dag_with_cron_expression_v04 =
     add_task cron_task1
       (DAG ''dag_with_cron_expression_v04'' cron_default_args None
          (Some (datetime 2025 12 16)) ''0 3 * * Tue'' True)"

subsection \<open>\<^verbatim>\<open>dag_with_postgres_operator.py\<close>\<close>

definition postgres_default_args :: args where
  "postgres_default_args = map_of
     [(''owner'', StrV ''afrith''),
      (''retries'', IntV 5),
      (''retry_delay'', TimedeltaV (timedelta_minutes 5))]"

text \<open>The three triple-quoted SQL texts, character for character.\<close>

definition create_sql :: string where
  "create_sql =
     NL @ ''        CREATE TABLE IF NOT EXISTS dag_runs ('' @
     NL @ ''            dt DATE,'' @
     NL @ ''            dag_id VARCHAR,'' @
     NL @ ''            PRIMARY KEY (dt, dag_id)'' @
     NL @ ''        );'' @
     NL @ ''        ''"

definition insert_sql :: string where
  "insert_sql =
     NL @ ''            INSERT INTO dag_runs (dt, dag_id) VALUES ('{{ ds }}', '{{ dag.dag_id }}')'' @
     NL @ ''        ''"

definition delete_sql :: string where
  "delete_sql =
     NL @ ''            DELETE FROM dag_runs WHERE dt = '{{ ds }}' and dag_id = '{{ dag.dag_id }}';'' @
     NL @ ''        ''"

definition task1 :: task where
  "task1 =
     \<lparr>task_id = ''create_postgres_table'',
      operator = SQLExecuteQueryOperator ''postgres_localhost'' create_sql\<rparr>"

definition task2 :: task where
  "task2 =
     \<lparr>task_id = ''insert_into_table'',
      operator = SQLExecuteQueryOperator ''postgres_localhost'' insert_sql\<rparr>"

definition task3 :: task where
  "task3 =
     \<lparr>task_id = ''delete_data_from_table'',
      operator = SQLExecuteQueryOperator ''postgres_localhost'' delete_sql\<rparr>"

text \<open>
  The block creates \<^verbatim>\<open>task1\<close>, \<^verbatim>\<open>task2\<close>, \<^verbatim>\<open>task3\<close> in this order and ends with
  \<^verbatim>\<open>task1 >> task3 >> task2\<close>.
\<close>

definition dag_with_postgres_operator_v03 :: dag where
  "dag_with_postgres_operator_v03 =
     (let g0 = DAG ''dag_with_postgres_operator_v03'' postgres_default_args None
                 (Some (datetime 2025 12 16)) ''0 0 * * *'' False;
          g1 = add_task task1 g0;
          g2 = add_task task2 g1;
          g3 = add_task task3 g2;
          (t, g4) = rshift task1 task3 g3;
          (u, g5) = rshift t task2 g4
      in g5)"

text \<open>The workflows of the repository, in the order the specification lists them.\<close>

definition workflows :: "dag list" where
  "workflows =
     [dag_with_catchup_and_backfill_v02,
      dag_with_cron_expression_v04,
      dag_with_postgres_operator_v03]"

section \<open>Reading a workflow\<close>

text \<open>
  The retry count of a workflow is the integer stored under \<^verbatim>\<open>'retries'\<close> in its
  \<^verbatim>\<open>default_args\<close>; the retry delay is the duration under \<^verbatim>\<open>'retry_delay'\<close>.
\<close>

definition retries_of :: "dag \<Rightarrow> int option" where
  "retries_of g =
     (case default_args g ''retries'' of Some (IntV n) \<Rightarrow> Some n | _ \<Rightarrow> None)"

definition retry_delay_of :: "dag \<Rightarrow> int option" where
  "retry_delay_of g =
     (case default_args g ''retry_delay'' of Some (TimedeltaV n) \<Rightarrow> Some n | _ \<Rightarrow> None)"

definition has_retry_policy :: "dag \<Rightarrow> bool" where
  "has_retry_policy g = (retries_of g \<noteq> None \<and> retry_delay_of g \<noteq> None)"

text \<open>The text a step runs: the shell command or the SQL text.\<close>

fun step_text :: "task \<Rightarrow> string" where
  "step_text t =
     (case operator t of
        BashOperator cmd \<Rightarrow> cmd
      | SQLExecuteQueryOperator conn sql \<Rightarrow> sql)"

fun find_task :: "string \<Rightarrow> task list \<Rightarrow> task option" where
  "find_task i [] = None"
| "find_task i (t # ts) = (if task_id t = i then Some t else find_task i ts)"

definition step_sql :: "dag \<Rightarrow> string \<Rightarrow> string option" where
  "step_sql g i =
     (case find_task i (tasks g) of
        None \<Rightarrow> None
      | Some t \<Rightarrow>
          (case operator t of
             BashOperator cmd \<Rightarrow> None
           | SQLExecuteQueryOperator conn sql \<Rightarrow> Some sql))"

text \<open>
  Any two different steps of a workflow are ordered by its declared edges: one of them
  is reachable from the other along edges. A workflow with a single step has no pair of
  steps to order.
\<close>

definition ordered_by_edges :: "dag \<Rightarrow> bool" where
  "ordered_by_edges g =
     (\<forall>a \<in> set (tasks g). \<forall>b \<in> set (tasks g).
        task_id a \<noteq> task_id b \<longrightarrow>
          (task_id a, task_id b) \<in> (set (edges g))\<^sup>+ \<or>
          (task_id b, task_id a) \<in> (set (edges g))\<^sup>+)"

definition declares_workflow :: "dag \<Rightarrow> bool" where
  "declares_workflow g =
     (dag_id g \<noteq> [] \<and> has_retry_policy g \<and> schedule g \<noteq> [] \<and> tasks g \<noteq> [] \<and>
      list_all (\<lambda>t. step_text t \<noteq> []) (tasks g) \<and> ordered_by_edges g)"

text \<open>Python's \<^verbatim>\<open>p in s\<close> on strings.\<close>

fun starts_with :: "string \<Rightarrow> string \<Rightarrow> bool" where
  "starts_with s [] = True"
| "starts_with [] (p # ps) = False"
| "starts_with (x # xs) (p # ps) = (x = p \<and> starts_with xs ps)"

fun contains :: "string \<Rightarrow> string \<Rightarrow> bool" where
  "contains [] p = (p = [])"
| "contains (x # xs) p = (starts_with (x # xs) p \<or> contains xs p)"

section \<open>Schedule expressions\<close>

text \<open>
  Modelled from the spec: the parser of schedule expressions belongs to the orchestration
  engine and is not in the repository. The specification names the two forms, "cron
  expression or named interval, e.g. \<^verbatim>\<open>@daily\<close> or \<^verbatim>\<open>0 3 * * Tue\<close>". The named
  intervals are the engine's presets; a cron expression is taken in the classic
  five-field form (minute, hour, day of month, month, day of week), each field a
  comma-separated list of items, an item a star, a value or an ascending range of
  values, optionally followed by a slash and a positive step; months and days of the
  week may be written by their three-letter English names in any letter case.
\<close>

definition schedule_presets :: "string list" where
  "schedule_presets =
     [''@once'', ''@continuous'', ''@hourly'', ''@daily'', ''@weekly'', ''@monthly'',
      ''@quarterly'', ''@yearly'']"

definition month_names :: "string list" where
  "month_names =
     [''jan'', ''feb'', ''mar'', ''apr'', ''may'', ''jun'',
      ''jul'', ''aug'', ''sep'', ''oct'', ''nov'', ''dec'']"

definition weekday_names :: "string list" where
  "weekday_names = [''sun'', ''mon'', ''tue'', ''wed'', ''thu'', ''fri'', ''sat'']"

fun split_on :: "char \<Rightarrow> string \<Rightarrow> string list" where
  "split_on c [] = [[]]"
| "split_on c (x # xs) =
     (if x = c then [] # split_on c xs
      else (case split_on c xs of
              [] \<Rightarrow> [[x]]
            | w # ws \<Rightarrow> (x # w) # ws))"

definition is_digit :: "char \<Rightarrow> bool" where
  "is_digit c = (48 \<le> (of_char c :: nat) \<and> (of_char c :: nat) \<le> 57)"

definition to_lower :: "char \<Rightarrow> char" where
  "to_lower c =
     (if 65 \<le> (of_char c :: nat) \<and> (of_char c :: nat) \<le> 90
      then char_of ((of_char c :: nat) + 32) else c)"

definition parse_nat :: "string \<Rightarrow> nat option" where
  "parse_nat s =
     (if s \<noteq> [] \<and> list_all is_digit s
      then Some (foldl (\<lambda>n c. 10 * n + (of_char c - 48)) 0 s)
      else None)"

fun index_of :: "string \<Rightarrow> string list \<Rightarrow> nat option" where
  "index_of s [] = None"
| "index_of s (x # xs) =
     (if s = x then Some 0 else map_option Suc (index_of s xs))"

text \<open>
  A field is described by the least and greatest number it admits, its names and the
  number the first name stands for.
\<close>

record field_kind =
  least :: nat
  greatest :: nat
  names :: "string list"
  first_name :: nat

definition parse_value :: "field_kind \<Rightarrow> string \<Rightarrow> nat option" where
  "parse_value k s =
     (case parse_nat s of
        Some n \<Rightarrow> (if least k \<le> n \<and> n \<le> greatest k then Some n else None)
      | None \<Rightarrow> map_option (\<lambda>i. i + first_name k) (index_of (map to_lower s) (names k)))"

definition valid_range :: "field_kind \<Rightarrow> string \<Rightarrow> bool" where
  "valid_range k r =
     (r = ''*'' \<or>
      (case split_on (CHR ''-'') r of
         [v] \<Rightarrow> parse_value k v \<noteq> None
       | [a, b] \<Rightarrow>
           (case (parse_value k a, parse_value k b) of
              (Some x, Some y) \<Rightarrow> x \<le> y
            | _ \<Rightarrow> False)
       | _ \<Rightarrow> False))"

definition valid_item :: "field_kind \<Rightarrow> string \<Rightarrow> bool" where
  "valid_item k it =
     (case split_on (CHR ''/'') it of
        [r] \<Rightarrow> valid_range k r
      | [r, st] \<Rightarrow>
          valid_range k r \<and> (case parse_nat st of Some n \<Rightarrow> 0 < n | None \<Rightarrow> False)
      | _ \<Rightarrow> False)"

definition valid_field :: "field_kind \<Rightarrow> string \<Rightarrow> bool" where
  "valid_field k f = list_all (valid_item k) (split_on (CHR '','') f)"

definition minute_field :: field_kind where
  "minute_field = \<lparr>least = 0, greatest = 59, names = [], first_name = 0\<rparr>"

definition hour_field :: field_kind where
  "hour_field = \<lparr>least = 0, greatest = 23, names = [], first_name = 0\<rparr>"

definition day_of_month_field :: field_kind where
  "day_of_month_field = \<lparr>least = 1, greatest = 31, names = [], first_name = 0\<rparr>"

definition month_field :: field_kind where
  "month_field = \<lparr>least = 1, greatest = 12, names = month_names, first_name = 1\<rparr>"

definition day_of_week_field :: field_kind where
  "day_of_week_field = \<lparr>least = 0, greatest = 7, names = weekday_names, first_name = 0\<rparr>"

definition valid_cron :: "string \<Rightarrow> bool" where
  "valid_cron s =
     (case filter (\<lambda>w. w \<noteq> []) (split_on (CHR '' '') s) of
        [mi, h, dm, mo, dw] \<Rightarrow>
          valid_field minute_field mi \<and> valid_field hour_field h \<and>
          valid_field day_of_month_field dm \<and> valid_field month_field mo \<and>
          valid_field day_of_week_field dw
      | _ \<Rightarrow> False)"

definition valid_schedule :: "string \<Rightarrow> bool" where
  "valid_schedule s = (s \<in> set schedule_presets \<or> valid_cron s)"

section \<open>Catchup\<close>

text \<open>Python compares datetimes field by field, the year first.\<close>

definition datetime_le :: "datetime \<Rightarrow> datetime \<Rightarrow> bool" where
  "datetime_le a b =
     (year a < year b \<or>
      (year a = year b \<and>
         (month a < month b \<or> (month a = month b \<and> day a \<le> day b))))"

text \<open>
  Modelled from the spec: the scheduler belongs to the orchestration engine and is not in
  the repository. The glossary defines catchup as "execution of all historically missed
  scheduled runs between start date and now". The instants at which the schedule fires
  are computed by the engine from the schedule expression and are a parameter here. With
  the flag off the engine does not go back in time: of the missed runs it executes the
  most recent one only. A workflow without a start date is never scheduled.
\<close>

definition missed_runs :: "datetime \<Rightarrow> datetime \<Rightarrow> datetime list \<Rightarrow> datetime list" where
  "missed_runs start now ticks =
     filter (\<lambda>t. datetime_le start t \<and> datetime_le t now) ticks"

definition runs_to_execute :: "dag \<Rightarrow> datetime \<Rightarrow> datetime list \<Rightarrow> datetime list" where
  "runs_to_execute g now ticks =
     (case start_date g of
        None \<Rightarrow> []
      | Some start \<Rightarrow>
          (if catchup g then missed_runs start now ticks
           else (case missed_runs start now ticks of
                   [] \<Rightarrow> []
                 | t # ts \<Rightarrow> [last (t # ts)])))"

section \<open>The SQL steps\<close>

subsection \<open>Rendering the templates\<close>

text \<open>
  The values the engine renders into the templates of one run: the run date for
  \<^verbatim>\<open>{{ ds }}\<close> and the workflow identifier for \<^verbatim>\<open>{{ dag.dag_id }}\<close>.
\<close>

record run_context =
  ds :: string
  run_dag_id :: string

datatype error =
    Unknown_step string
  | Template_error
  | Syntax_error
  | Duplicate_table string
  | Undefined_table string
  | Undefined_column
  | Not_null_violation
  | Unique_violation "string option list"

text \<open>
  Modelled from the spec: the templating engine is the orchestration engine's and is not
  in the repository. The specification says that the SQL steps "accept run-date template
  substitution (\<^verbatim>\<open>{{ ds }}\<close>, \<^verbatim>\<open>{{ dag.dag_id }}\<close>) performed by the external engine".
  The text is rendered in one pass from left to right: an expression between \<^verbatim>\<open>{{\<close> and
  the next \<^verbatim>\<open>}}\<close> is replaced by the value of the variable it names, blanks around the
  name ignored; a name other than the two above and an expression that is not closed
  are errors; everything else is copied. The second argument is the expression read so
  far, or \<open>None\<close> outside an expression.
\<close>

definition is_space :: "char \<Rightarrow> bool" where
  "is_space c = (c = CHR '' '' \<or> c = CHR 0x0A \<or> c = CHR 0x09 \<or> c = CHR 0x0D)"

definition strip :: "string \<Rightarrow> string" where
  "strip s = rev (dropWhile is_space (rev (dropWhile is_space s)))"

definition template_variable :: "run_context \<Rightarrow> string \<Rightarrow> string option" where
  "template_variable c name =
     (if name = ''ds'' then Some (ds c)
      else if name = ''dag.dag_id'' then Some (run_dag_id c)
      else None)"

fun render :: "run_context \<Rightarrow> string option \<Rightarrow> string \<Rightarrow> string option" where
  "render c None [] = Some []"
| "render c None [x] = Some [x]"
| "render c None (x # y # zs) =
     (if x = CHR ''{'' \<and> y = CHR ''{'' then render c (Some []) zs
      else map_option (Cons x) (render c None (y # zs)))"
| "render c (Some e) [] = None"
| "render c (Some e) [x] = None"
| "render c (Some e) (x # y # zs) =
     (if x = CHR ''}'' \<and> y = CHR ''}''
      then (case template_variable c (strip (rev e)) of
              None \<Rightarrow> None
            | Some v \<Rightarrow> map_option (append v) (render c None zs))
      else render c (Some (x # e)) (y # zs))"

subsection \<open>Reading a statement\<close>

text \<open>
  Modelled from the spec: the SQL parser is the database's and is not in the repository;
  the specification asks only that the "SQL text is syntactically well-formed". The
  reader covers the three statement forms the module sends.
  \<^item> Tokens are words (letters, digits, underscores; folded to lower case, as unquoted
    identifiers and keywords are), string literals between single quotes, parentheses,
    commas, semicolons and equals signs; blanks separate tokens; any other character
    and a literal that is not closed are errors.
  \<^item> \<^verbatim>\<open>CREATE TABLE [IF NOT EXISTS] name (column type, ..., PRIMARY KEY (column, ...))\<close>
  \<^item> \<^verbatim>\<open>INSERT INTO name (column, ...) VALUES ('literal', ...)\<close>
  \<^item> \<^verbatim>\<open>DELETE FROM name [WHERE column = 'literal' AND ...]\<close>
  A statement may end with a semicolon.
\<close>

datatype token =
    Word string
  | Str_lit string
  | Lparen
  | Rparen
  | Comma
  | Semicolon
  | Equals

datatype lex_mode = Between | In_word string | In_string string

definition is_word_char :: "char \<Rightarrow> bool" where
  "is_word_char c =
     (is_digit c \<or> c = CHR ''_'' \<or>
      (65 \<le> (of_char c :: nat) \<and> (of_char c :: nat) \<le> 90) \<or>
      (97 \<le> (of_char c :: nat) \<and> (of_char c :: nat) \<le> 122))"

definition punctuation :: "char \<Rightarrow> token option" where
  "punctuation c =
     (if c = CHR ''('' then Some Lparen
      else if c = CHR '')'' then Some Rparen
      else if c = CHR '','' then Some Comma
      else if c = CHR '';'' then Some Semicolon
      else if c = CHR ''='' then Some Equals
      else None)"

text \<open>The words and literals in progress are kept reversed.\<close>

fun lex :: "lex_mode \<Rightarrow> string \<Rightarrow> token list option" where
  "lex Between [] = Some []"
| "lex (In_word w) [] = Some [Word (rev w)]"
| "lex (In_string s) [] = None"
| "lex Between (c # cs) =
     (if c = CHR 0x27 then lex (In_string []) cs
      else if is_space c then lex Between cs
      else if is_word_char c then lex (In_word [to_lower c]) cs
      else (case punctuation c of
              None \<Rightarrow> None
            | Some t \<Rightarrow> map_option (Cons t) (lex Between cs)))"
| "lex (In_word w) (c # cs) =
     (if is_word_char c then lex (In_word (to_lower c # w)) cs
      else map_option (Cons (Word (rev w)))
        (if c = CHR 0x27 then lex (In_string []) cs
         else if is_space c then lex Between cs
         else (case punctuation c of
                 None \<Rightarrow> None
               | Some t \<Rightarrow> map_option (Cons t) (lex Between cs))))"
| "lex (In_string s) (c # cs) =
     (if c = CHR 0x27 then map_option (Cons (Str_lit (rev s))) (lex Between cs)
      else lex (In_string (c # s)) cs)"

datatype statement =
    Create_table bool string "(string \<times> string) list" "string list"
  | Insert_into string "string list" "string list"
  | Delete_from string "(string \<times> string) list"

text \<open>The items of a list, separated by the commas that are not inside parentheses.\<close>

fun split_items :: "nat \<Rightarrow> token list \<Rightarrow> token list list" where
  "split_items d [] = [[]]"
| "split_items d (t # ts) =
     (if t = Comma \<and> d = 0 then [] # split_items d ts
      else (case split_items (if t = Lparen then Suc d else if t = Rparen then d - 1 else d) ts of
              [] \<Rightarrow> [[t]]
            | w # ws \<Rightarrow> (t # w) # ws))"

fun word_of :: "token list \<Rightarrow> string option" where
  "word_of [Word w] = Some w"
| "word_of ts = None"

fun literal_of :: "token list \<Rightarrow> string option" where
  "literal_of [Str_lit v] = Some v"
| "literal_of ts = None"

fun column_of :: "token list \<Rightarrow> (string \<times> string) option" where
  "column_of [Word c, Word ty] = Some (c, ty)"
| "column_of ts = None"

definition parse_names :: "token list \<Rightarrow> string list option" where
  "parse_names ts = those (map word_of (split_items 0 ts))"

definition parse_literals :: "token list \<Rightarrow> string list option" where
  "parse_literals ts = those (map literal_of (split_items 0 ts))"

text \<open>The tokens between an opening parenthesis, already read, and the closing one.\<close>

definition parenthesised :: "token list \<Rightarrow> token list option" where
  "parenthesised ts =
     (if ts \<noteq> [] \<and> last ts = Rparen then Some (butlast ts) else None)"

definition is_primary_key :: "token list \<Rightarrow> bool" where
  "is_primary_key item = (take 3 item = [Word ''primary'', Word ''key'', Lparen])"

definition parse_primary_key :: "token list list \<Rightarrow> string list option" where
  "parse_primary_key items =
     (case filter is_primary_key items of
        [] \<Rightarrow> Some []
      | [item] \<Rightarrow>
          (case parenthesised (drop 3 item) of
             None \<Rightarrow> None
           | Some ts \<Rightarrow> parse_names ts)
      | _ \<Rightarrow> None)"

definition parse_create :: "bool \<Rightarrow> token list \<Rightarrow> statement option" where
  "parse_create if_not_exists ts =
     (case (word_of (take 1 ts), take 1 (drop 1 ts) = [Lparen], parenthesised (drop 2 ts)) of
        (Some name, True, Some body) \<Rightarrow>
          (case (those (map column_of (filter (\<lambda>i. \<not> is_primary_key i) (split_items 0 body))),
                 parse_primary_key (split_items 0 body)) of
             (Some cols, Some pk) \<Rightarrow> Some (Create_table if_not_exists name cols pk)
           | _ \<Rightarrow> None)
      | _ \<Rightarrow> None)"

definition parse_insert :: "token list \<Rightarrow> statement option" where
  "parse_insert ts =
     (case (word_of (take 1 ts), take 1 (drop 1 ts) = [Lparen]) of
        (Some name, True) \<Rightarrow>
          (let names = takeWhile (\<lambda>t. t \<noteq> Rparen) (drop 2 ts);
               rest = dropWhile (\<lambda>t. t \<noteq> Rparen) (drop 2 ts)
           in if take 3 rest = [Rparen, Word ''values'', Lparen]
              then (case (parse_names names, parenthesised (drop 3 rest)) of
                      (Some cols, Some vs) \<Rightarrow>
                        (case parse_literals vs of
                           None \<Rightarrow> None
                         | Some vals \<Rightarrow> Some (Insert_into name cols vals))
                    | _ \<Rightarrow> None)
              else None)
      | _ \<Rightarrow> None)"

fun parse_conditions :: "token list \<Rightarrow> (string \<times> string) list option" where
  "parse_conditions [Word c, Equals, Str_lit v] = Some [(c, v)]"
| "parse_conditions (Word c # Equals # Str_lit v # Word a # rest) =
     (if a = ''and'' then map_option (Cons (c, v)) (parse_conditions rest) else None)"
| "parse_conditions ts = None"

definition parse_delete :: "token list \<Rightarrow> statement option" where
  "parse_delete ts =
     (case word_of (take 1 ts) of
        None \<Rightarrow> None
      | Some name \<Rightarrow>
          (if drop 1 ts = [] then Some (Delete_from name [])
           else if take 1 (drop 1 ts) = [Word ''where'']
           then map_option (Delete_from name) (parse_conditions (drop 2 ts))
           else None))"

definition strip_semicolon :: "token list \<Rightarrow> token list" where
  "strip_semicolon ts = (if ts \<noteq> [] \<and> last ts = Semicolon then butlast ts else ts)"

definition parse_statement :: "token list \<Rightarrow> statement option" where
  "parse_statement toks =
     (let ts = strip_semicolon toks in
      if take 5 ts = [Word ''create'', Word ''table'', Word ''if'', Word ''not'', Word ''exists'']
      then parse_create True (drop 5 ts)
      else if take 2 ts = [Word ''create'', Word ''table''] then parse_create False (drop 2 ts)
      else if take 2 ts = [Word ''insert'', Word ''into''] then parse_insert (drop 2 ts)
      else if take 2 ts = [Word ''delete'', Word ''from''] then parse_delete (drop 2 ts)
      else None)"

text \<open>From the text a step holds to the statement the database receives in one run.\<close>

definition read_sql :: "run_context \<Rightarrow> string \<Rightarrow> error + statement" where
  "read_sql c sql =
     (case render c None sql of
        None \<Rightarrow> Inl Template_error
      | Some text \<Rightarrow>
          (case lex Between text of
             None \<Rightarrow> Inl Syntax_error
           | Some toks \<Rightarrow>
               (case parse_statement toks of
                  None \<Rightarrow> Inl Syntax_error
                | Some st \<Rightarrow> Inr st)))"

subsection \<open>Executing a statement\<close>

text \<open>
  Modelled from the spec: the database is reached through the connection
  \<^verbatim>\<open>postgres_localhost\<close> and is not in the repository; the specification speaks of
  "sequential SQL statements against a relational database" and leaves their meaning to
  it. A table has named, typed columns, a primary key and rows, kept in insertion order;
  a row holds one value per column, \<open>None\<close> for a missing one. A database maps table
  names to tables.
  \<^item> \<^verbatim>\<open>CREATE TABLE\<close> creates an empty table; when the table exists it is an error,
    unless \<^verbatim>\<open>IF NOT EXISTS\<close> is given, which then does nothing.
  \<^item> \<^verbatim>\<open>INSERT\<close> appends a row; a column that is not named gets no value; a primary-key
    column without a value and a row whose primary key is already in the table are
    errors.
  \<^item> \<^verbatim>\<open>DELETE\<close> removes every row that satisfies all the conditions.
  \<^item> A table or column that does not exist is an error.
\<close>

type_synonym row = "string option list"

record table =
  columns :: "(string \<times> string) list"
  primary_key :: "string list"
  rows :: "row list"

type_synonym database = "string \<rightharpoonup> table"

definition column_value :: "table \<Rightarrow> row \<Rightarrow> string \<Rightarrow> string option" where
  "column_value t r c =
     (case map_of (zip (map fst (columns t)) r) c of
        None \<Rightarrow> None
      | Some v \<Rightarrow> v)"

definition key_of :: "table \<Rightarrow> row \<Rightarrow> string option list" where
  "key_of t r = map (column_value t r) (primary_key t)"

definition satisfies :: "table \<Rightarrow> (string \<times> string) list \<Rightarrow> row \<Rightarrow> bool" where
  "satisfies t conds r = list_all (\<lambda>cv. column_value t r (fst cv) = Some (snd cv)) conds"

definition known_columns :: "table \<Rightarrow> string list \<Rightarrow> bool" where
  "known_columns t cs = list_all (\<lambda>c. c \<in> set (map fst (columns t))) cs"

fun execute :: "statement \<Rightarrow> database \<Rightarrow> error + database" where
  "execute (Create_table if_not_exists n cols pk) db =
     (case db n of
        Some t \<Rightarrow> (if if_not_exists then Inr db else Inl (Duplicate_table n))
      | None \<Rightarrow>
          (if list_all (\<lambda>c. c \<in> set (map fst cols)) pk
           then Inr (db(n \<mapsto> \<lparr>columns = cols, primary_key = pk, rows = []\<rparr>))
           else Inl Undefined_column))"
| "execute (Insert_into n cols vals) db =
     (case db n of
        None \<Rightarrow> Inl (Undefined_table n)
      | Some t \<Rightarrow>
          (let r = map (\<lambda>c. map_of (zip cols vals) (fst c)) (columns t) in
           if length cols \<noteq> length vals then Inl Syntax_error
           else if \<not> known_columns t cols then Inl Undefined_column
           else if None \<in> set (key_of t r) then Inl Not_null_violation
           else if key_of t r \<in> set (map (key_of t) (rows t))
             then Inl (Unique_violation (key_of t r))
           else Inr (db(n \<mapsto> t\<lparr>rows := rows t @ [r]\<rparr>))))"
| "execute (Delete_from n conds) db =
     (case db n of
        None \<Rightarrow> Inl (Undefined_table n)
      | Some t \<Rightarrow>
          (if \<not> known_columns t (map fst conds) then Inl Undefined_column
           else Inr (db(n \<mapsto> t\<lparr>rows := filter (\<lambda>r. \<not> satisfies t conds r) (rows t)\<rparr>))))"

subsection \<open>Running steps\<close>

definition run_step :: "dag \<Rightarrow> run_context \<Rightarrow> string \<Rightarrow> database \<Rightarrow> error + database" where
  "run_step g c i db =
     (case step_sql g i of
        None \<Rightarrow> Inl (Unknown_step i)
      | Some sql \<Rightarrow>
          (case read_sql c sql of
             Inl e \<Rightarrow> Inl e
           | Inr st \<Rightarrow> execute st db))"

text \<open>Steps run one after the other; the first error ends the run.\<close>

fun run_steps :: "dag \<Rightarrow> run_context \<Rightarrow> string list \<Rightarrow> database \<Rightarrow> error + database" where
  "run_steps g c [] db = Inr db"
| "run_steps g c (i # js) db =
     (case run_step g c i db of
        Inl e \<Rightarrow> Inl e
      | Inr db' \<Rightarrow> run_steps g c js db')"

section \<open>Evaluation of the modules\<close>

lemma catchup_dag_eval:
  "dag_with_catchup_and_backfill_v02 =
     \<lparr>dag_id = ''dag_with_catchup_and_backfill_v02'',
      default_args = catchup_default_args,
      description = Some ''DAG with catchup and backfill example'',
      start_date = Some \<lparr>year = 2025, month = 12, day = 21\<rparr>,
      schedule = ''@daily'', catchup = True,
      tasks = [catchup_task1], edges = []\<rparr>"
  by (simp add: dag_with_catchup_and_backfill_v02_def DAG_def add_task_def datetime_def)

lemma cron_dag_eval:
  "dag_with_cron_expression_v04 =
     \<lparr>dag_id = ''dag_with_cron_expression_v04'',
      default_args = cron_default_args,
      description = None,
      start_date = Some \<lparr>year = 2025, month = 12, day = 16\<rparr>,
      schedule = ''0 3 * * Tue'', catchup = True,
      tasks = [cron_task1], edges = []\<rparr>"
  by (simp add: dag_with_cron_expression_v04_def DAG_def add_task_def datetime_def)

lemma postgres_dag_eval:
  "dag_with_postgres_operator_v03 =
     \<lparr>dag_id = ''dag_with_postgres_operator_v03'',
      default_args = postgres_default_args,
      description = None,
      start_date = Some \<lparr>year = 2025, month = 12, day = 16\<rparr>,
      schedule = ''0 0 * * *'', catchup = False,
      tasks = [task1, task2, task3],
      edges = [(''create_postgres_table'', ''delete_data_from_table''),
               (''delete_data_from_table'', ''insert_into_table'')]\<rparr>"
  by (simp add: dag_with_postgres_operator_v03_def DAG_def add_task_def rshift_def
      datetime_def task1_def task2_def task3_def)

lemma workflows_eval:
  "workflows =
     [dag_with_catchup_and_backfill_v02, dag_with_cron_expression_v04,
      dag_with_postgres_operator_v03]"
  by (simp add: workflows_def)

section \<open>Configuration values\<close>

text \<open>
  C1. The third workflow has exactly three steps, with pairwise different identifiers:
  \<^verbatim>\<open>task1\<close> creates the table, \<^verbatim>\<open>task2\<close> inserts and \<^verbatim>\<open>task3\<close> deletes. Its
  declared edges are exactly two: from the create-table step to the delete step and from
  the delete step to the insert step (\<^verbatim>\<open>task1 >> task3 >> task2\<close>).
\<close>

theorem postgres_step_graph:
  "tasks dag_with_postgres_operator_v03 = [task1, task2, task3] \<and>
   length (tasks dag_with_postgres_operator_v03) = 3 \<and>
   map task_id (tasks dag_with_postgres_operator_v03) =
     [''create_postgres_table'', ''insert_into_table'', ''delete_data_from_table''] \<and>
   distinct (map task_id (tasks dag_with_postgres_operator_v03)) \<and>
   edges dag_with_postgres_operator_v03 =
     [(task_id task1, task_id task3), (task_id task3, task_id task2)] \<and>
   edges dag_with_postgres_operator_v03 =
     [(''create_postgres_table'', ''delete_data_from_table''),
      (''delete_data_from_table'', ''insert_into_table'')]"
  by (simp add: postgres_dag_eval task1_def task2_def task3_def)

lemma retries_of_eval:
  "retries_of dag_with_catchup_and_backfill_v02 = Some 5"
  "retries_of dag_with_cron_expression_v04 = Some 5"
  "retries_of dag_with_postgres_operator_v03 = Some 5"
  by (simp_all add: retries_of_def catchup_dag_eval cron_dag_eval postgres_dag_eval
      catchup_default_args_def cron_default_args_def postgres_default_args_def)

text \<open>
  C2. In each of the three workflows the \<^verbatim>\<open>default_args\<close> dictionary gives the retry
  count 5, an integer that is not negative.
\<close>

theorem default_retries_five:
  "map retries_of workflows = [Some 5, Some 5, Some 5] \<and>
   list_all (\<lambda>g. case retries_of g of Some n \<Rightarrow> 0 \<le> n | None \<Rightarrow> False) workflows"
  by (simp add: workflows_eval retries_of_eval)

text \<open>
  C3. The identifier of every workflow is a non-empty string, and the identifiers of the
  three workflows are pairwise different.
\<close>

theorem workflow_ids_nonempty_distinct:
  "length workflows = 3 \<and>
   list_all (\<lambda>g. dag_id g \<noteq> []) workflows \<and>
   distinct (map dag_id workflows)"
  by (simp add: workflows_eval catchup_dag_eval cron_dag_eval postgres_dag_eval)

text \<open>
  C8. The catchup flag is on in the catchup workflow and in the cron workflow and off in
  the postgres workflow, so the three flags are not all the same.
\<close>

theorem catchup_flags:
  "catchup dag_with_catchup_and_backfill_v02 = True \<and>
   catchup dag_with_cron_expression_v04 = True \<and>
   catchup dag_with_postgres_operator_v03 = False \<and>
   map catchup workflows = [True, True, False] \<and>
   catchup dag_with_catchup_and_backfill_v02 \<noteq> catchup dag_with_postgres_operator_v03"
  by (simp add: workflows_eval catchup_dag_eval cron_dag_eval postgres_dag_eval)

section \<open>Schedules and catchup\<close>

text \<open>
  C4. The schedule expressions are \<^verbatim>\<open>@daily\<close> for the catchup workflow,
  \<^verbatim>\<open>0 3 * * Tue\<close> for the cron workflow and \<^verbatim>\<open>0 0 * * *\<close> for the postgres
  workflow. Each is syntactically valid: the first is a named interval, the other two are
  five-field cron expressions.
\<close>

theorem schedules_valid:
  "map schedule workflows = [''@daily'', ''0 3 * * Tue'', ''0 0 * * *''] \<and>
   list_all (\<lambda>g. valid_schedule (schedule g)) workflows \<and>
   ''@daily'' \<in> set schedule_presets \<and>
   valid_cron ''0 3 * * Tue'' \<and> valid_cron ''0 0 * * *''"
proof -
  have s: "map schedule workflows = [''@daily'', ''0 3 * * Tue'', ''0 0 * * *'']"
    by (simp add: workflows_eval catchup_dag_eval cron_dag_eval postgres_dag_eval)
  have p: "''@daily'' \<in> set schedule_presets"
    by (simp add: schedule_presets_def)
  have c1: "valid_cron ''0 3 * * Tue''" by code_simp
  have c2: "valid_cron ''0 0 * * *''" by code_simp
  have "list_all valid_schedule (map schedule workflows)"
    unfolding s using p c1 c2 by (simp add: valid_schedule_def)
  then have "list_all (\<lambda>g. valid_schedule (schedule g)) workflows"
    by (simp add: list_all_iff)
  with s p c1 c2 show ?thesis by blast
qed

text \<open>
  C5. The catchup workflow declares the start date 2025-12-21 and sets its catchup flag.
  Under the engine's catchup rule the runs it executes at any moment are then all the
  scheduled instants between the start date and that moment, none left out.
\<close>

theorem catchup_workflow_runs_missed:
  "start_date dag_with_catchup_and_backfill_v02 = Some (datetime 2025 12 21) \<and>
   catchup dag_with_catchup_and_backfill_v02 = True \<and>
   runs_to_execute dag_with_catchup_and_backfill_v02 now ticks =
     missed_runs (datetime 2025 12 21) now ticks \<and>
   set (runs_to_execute dag_with_catchup_and_backfill_v02 now ticks) =
     {t \<in> set ticks. datetime_le (datetime 2025 12 21) t \<and> datetime_le t now}"
  by (simp add: catchup_dag_eval runs_to_execute_def missed_runs_def datetime_def)

section \<open>Steps and their ordering\<close>

lemma step_sql_eval:
  "step_sql dag_with_postgres_operator_v03 ''create_postgres_table'' = Some create_sql"
  "step_sql dag_with_postgres_operator_v03 ''insert_into_table'' = Some insert_sql"
  "step_sql dag_with_postgres_operator_v03 ''delete_data_from_table'' = Some delete_sql"
  by (simp_all add: step_sql_def postgres_dag_eval task1_def task2_def task3_def)

lemma has_retry_policy_eval:
  "has_retry_policy dag_with_catchup_and_backfill_v02"
  "has_retry_policy dag_with_cron_expression_v04"
  "has_retry_policy dag_with_postgres_operator_v03"
  by (simp_all add: has_retry_policy_def retries_of_def retry_delay_of_def
      catchup_dag_eval cron_dag_eval postgres_dag_eval
      catchup_default_args_def cron_default_args_def postgres_default_args_def)

lemma postgres_edges_reach:
  "(''create_postgres_table'', ''delete_data_from_table'') \<in> (set (edges dag_with_postgres_operator_v03))\<^sup>+"
  "(''delete_data_from_table'', ''insert_into_table'') \<in> (set (edges dag_with_postgres_operator_v03))\<^sup>+"
  "(''create_postgres_table'', ''insert_into_table'') \<in> (set (edges dag_with_postgres_operator_v03))\<^sup>+"
proof -
  let ?E = "set (edges dag_with_postgres_operator_v03)"
  have a: "(''create_postgres_table'', ''delete_data_from_table'') \<in> ?E"
    by (simp add: postgres_dag_eval)
  have b: "(''delete_data_from_table'', ''insert_into_table'') \<in> ?E"
    by (simp add: postgres_dag_eval)
  show "(''create_postgres_table'', ''delete_data_from_table'') \<in> ?E\<^sup>+"
    using a by (rule r_into_trancl)
  show "(''delete_data_from_table'', ''insert_into_table'') \<in> ?E\<^sup>+"
    using b by (rule r_into_trancl)
  show "(''create_postgres_table'', ''insert_into_table'') \<in> ?E\<^sup>+"
    using a b by (rule trancl.intros(2) [OF r_into_trancl])
qed

lemma ordered_by_edges_eval:
  "ordered_by_edges dag_with_catchup_and_backfill_v02"
  "ordered_by_edges dag_with_cron_expression_v04"
  "ordered_by_edges dag_with_postgres_operator_v03"
proof -
  show "ordered_by_edges dag_with_catchup_and_backfill_v02"
    by (simp add: ordered_by_edges_def catchup_dag_eval)
  show "ordered_by_edges dag_with_cron_expression_v04"
    by (simp add: ordered_by_edges_def cron_dag_eval)
  have t: "tasks dag_with_postgres_operator_v03 = [task1, task2, task3]"
    by (simp add: postgres_dag_eval)
  have i: "task_id task1 = ''create_postgres_table''" "task_id task2 = ''insert_into_table''"
    "task_id task3 = ''delete_data_from_table''"
    by (simp_all add: task1_def task2_def task3_def)
  show "ordered_by_edges dag_with_postgres_operator_v03"
    unfolding ordered_by_edges_def t using postgres_edges_reach by (simp add: i)
qed

lemma step_texts_nonempty:
  "list_all (\<lambda>t. step_text t \<noteq> []) (tasks dag_with_catchup_and_backfill_v02)"
  "list_all (\<lambda>t. step_text t \<noteq> []) (tasks dag_with_cron_expression_v04)"
  "list_all (\<lambda>t. step_text t \<noteq> []) (tasks dag_with_postgres_operator_v03)"
  by (simp_all add: catchup_dag_eval cron_dag_eval postgres_dag_eval catchup_task1_def
      cron_task1_def task1_def task2_def task3_def create_sql_def insert_sql_def
      delete_sql_def NL_def)

text \<open>
  C6. Each of the three modules declares a non-empty workflow identifier, a retry policy
  (a retry count and a retry delay in \<^verbatim>\<open>default_args\<close>), a schedule, and at least one
  step, every step carrying a shell command or an SQL text; and any two different steps
  of a workflow are ordered by its declared edges. The first two workflows have one step
  each and declare no edge; in the third the two edges order all three steps.
\<close>

theorem every_file_declares_workflow:
  "declares_workflow dag_with_catchup_and_backfill_v02 \<and>
   declares_workflow dag_with_cron_expression_v04 \<and>
   declares_workflow dag_with_postgres_operator_v03"
  unfolding declares_workflow_def
  using has_retry_policy_eval ordered_by_edges_eval step_texts_nonempty
  by (simp add: catchup_dag_eval cron_dag_eval postgres_dag_eval)

theorem every_file_declares_workflow_witness:
  "task1 \<in> set (tasks dag_with_postgres_operator_v03) \<and>
   task2 \<in> set (tasks dag_with_postgres_operator_v03) \<and>
   task_id task1 \<noteq> task_id task2 \<and>
   ((task_id task1, task_id task2) \<in> (set (edges dag_with_postgres_operator_v03))\<^sup>+ \<or>
    (task_id task2, task_id task1) \<in> (set (edges dag_with_postgres_operator_v03))\<^sup>+)"
proof -
  have m1: "task1 \<in> set (tasks dag_with_postgres_operator_v03)"
    by (simp add: postgres_dag_eval)
  have m2: "task2 \<in> set (tasks dag_with_postgres_operator_v03)"
    by (simp add: postgres_dag_eval)
  have ne: "task_id task1 \<noteq> task_id task2"
    by (simp add: task1_def task2_def)
  from every_file_declares_workflow
  have "ordered_by_edges dag_with_postgres_operator_v03"
    by (simp add: declares_workflow_def)
  with m1 m2 ne show ?thesis
    unfolding ordered_by_edges_def by blast
qed

text \<open>
  C7. The SQL text the third workflow hands to its insert step and the one it hands to
  its delete step both contain the two templates \<^verbatim>\<open>{{ ds }}\<close> and
  \<^verbatim>\<open>{{ dag.dag_id }}\<close>: the module substitutes nothing and leaves both to the engine.
\<close>

theorem sql_templates_present:
  "step_sql dag_with_postgres_operator_v03 ''insert_into_table'' = Some insert_sql \<and>
   step_sql dag_with_postgres_operator_v03 ''delete_data_from_table'' = Some delete_sql \<and>
   contains insert_sql ''{{ ds }}'' \<and> contains insert_sql ''{{ dag.dag_id }}'' \<and>
   contains delete_sql ''{{ ds }}'' \<and> contains delete_sql ''{{ dag.dag_id }}''"
proof -
  have "contains insert_sql ''{{ ds }}''" by code_simp
  moreover have "contains insert_sql ''{{ dag.dag_id }}''" by code_simp
  moreover have "contains delete_sql ''{{ ds }}''" by code_simp
  moreover have "contains delete_sql ''{{ dag.dag_id }}''" by code_simp
  ultimately show ?thesis by (simp add: step_sql_eval)
qed

section \<open>Running the SQL steps\<close>

subsection \<open>What the database receives\<close>

lemma render_create:
  "render c None create_sql = Some create_sql"
  by (simp add: create_sql_def NL_def)

lemma render_insert:
  "render c None insert_sql =
     Some (NL @ ''            INSERT INTO dag_runs (dt, dag_id) VALUES ('' @ [CHR 0x27] @ ds c @
           [CHR 0x27] @ '', '' @ [CHR 0x27] @ run_dag_id c @ [CHR 0x27] @ '')'' @ NL @ ''        '')"
  by (simp add: insert_sql_def NL_def template_variable_def strip_def is_space_def)

lemma render_delete:
  "render c None delete_sql =
     Some (NL @ ''            DELETE FROM dag_runs WHERE dt = '' @ [CHR 0x27] @ ds c @
           [CHR 0x27] @ '' and dag_id = '' @ [CHR 0x27] @ run_dag_id c @ [CHR 0x27] @ '';'' @ NL @ ''        '')"
  by (simp add: delete_sql_def NL_def template_variable_def strip_def is_space_def)

lemma to_lower_upper:
  "to_lower (CHR ''A'') = CHR ''a''" "to_lower (CHR ''B'') = CHR ''b''"
  "to_lower (CHR ''C'') = CHR ''c''" "to_lower (CHR ''D'') = CHR ''d''"
  "to_lower (CHR ''E'') = CHR ''e''" "to_lower (CHR ''F'') = CHR ''f''"
  "to_lower (CHR ''G'') = CHR ''g''" "to_lower (CHR ''H'') = CHR ''h''"
  "to_lower (CHR ''I'') = CHR ''i''" "to_lower (CHR ''J'') = CHR ''j''"
  "to_lower (CHR ''K'') = CHR ''k''" "to_lower (CHR ''L'') = CHR ''l''"
  "to_lower (CHR ''M'') = CHR ''m''" "to_lower (CHR ''N'') = CHR ''n''"
  "to_lower (CHR ''O'') = CHR ''o''" "to_lower (CHR ''P'') = CHR ''p''"
  "to_lower (CHR ''Q'') = CHR ''q''" "to_lower (CHR ''R'') = CHR ''r''"
  "to_lower (CHR ''S'') = CHR ''s''" "to_lower (CHR ''T'') = CHR ''t''"
  "to_lower (CHR ''U'') = CHR ''u''" "to_lower (CHR ''V'') = CHR ''v''"
  "to_lower (CHR ''W'') = CHR ''w''" "to_lower (CHR ''X'') = CHR ''x''"
  "to_lower (CHR ''Y'') = CHR ''y''" "to_lower (CHR ''Z'') = CHR ''z''"
  by code_simp+

lemma to_lower_other:
  "\<not> (65 \<le> (of_char c :: nat) \<and> (of_char c :: nat) \<le> 90) \<Longrightarrow> to_lower c = c"
  unfolding to_lower_def by (rule if_not_P)

lemma lex_in_string:
  "CHR 0x27 \<notin> set v \<Longrightarrow>
   lex (In_string s) (v @ CHR 0x27 # rest) =
     map_option (Cons (Str_lit (rev s @ v))) (lex Between rest)"
  by (induction v arbitrary: s) auto

lemmas lex_simps =
  is_space_def is_word_char_def is_digit_def punctuation_def to_lower_upper to_lower_other

lemma lex_create:
  "lex Between create_sql =
     Some [Word ''create'', Word ''table'', Word ''if'', Word ''not'', Word ''exists'',
           Word ''dag_runs'', Lparen, Word ''dt'', Word ''date'', Comma,
           Word ''dag_id'', Word ''varchar'', Comma,
           Word ''primary'', Word ''key'', Lparen, Word ''dt'', Comma, Word ''dag_id'', Rparen,
           Rparen, Semicolon]"
  by (simp add: create_sql_def NL_def lex_simps)

lemma lex_insert:
  assumes "CHR 0x27 \<notin> set (ds c)" and "CHR 0x27 \<notin> set (run_dag_id c)"
  shows "lex Between
     (NL @ ''            INSERT INTO dag_runs (dt, dag_id) VALUES ('' @ [CHR 0x27] @ ds c @
           [CHR 0x27] @ '', '' @ [CHR 0x27] @ run_dag_id c @ [CHR 0x27] @ '')'' @ NL @ ''        '') =
     Some [Word ''insert'', Word ''into'', Word ''dag_runs'', Lparen, Word ''dt'', Comma,
           Word ''dag_id'', Rparen, Word ''values'', Lparen, Str_lit (ds c), Comma,
           Str_lit (run_dag_id c), Rparen]"
  using assms by (simp add: NL_def lex_simps lex_in_string)

lemma lex_delete:
  assumes "CHR 0x27 \<notin> set (ds c)" and "CHR 0x27 \<notin> set (run_dag_id c)"
  shows "lex Between
     (NL @ ''            DELETE FROM dag_runs WHERE dt = '' @ [CHR 0x27] @ ds c @
           [CHR 0x27] @ '' and dag_id = '' @ [CHR 0x27] @ run_dag_id c @ [CHR 0x27] @ '';'' @ NL @ ''        '') =
     Some [Word ''delete'', Word ''from'', Word ''dag_runs'', Word ''where'', Word ''dt'', Equals,
           Str_lit (ds c), Word ''and'', Word ''dag_id'', Equals, Str_lit (run_dag_id c),
           Semicolon]"
  using assms by (simp add: NL_def lex_simps lex_in_string)

lemma parse_create_eval:
  "parse_statement
     [Word ''create'', Word ''table'', Word ''if'', Word ''not'', Word ''exists'',
      Word ''dag_runs'', Lparen, Word ''dt'', Word ''date'', Comma,
      Word ''dag_id'', Word ''varchar'', Comma,
      Word ''primary'', Word ''key'', Lparen, Word ''dt'', Comma, Word ''dag_id'', Rparen,
      Rparen, Semicolon] =
   Some (Create_table True ''dag_runs'' [(''dt'', ''date''), (''dag_id'', ''varchar'')]
           [''dt'', ''dag_id''])"
  by (simp add: parse_statement_def strip_semicolon_def parse_create_def parenthesised_def
      is_primary_key_def parse_primary_key_def parse_names_def)

lemma parse_insert_eval:
  "parse_statement
     [Word ''insert'', Word ''into'', Word ''dag_runs'', Lparen, Word ''dt'', Comma,
      Word ''dag_id'', Rparen, Word ''values'', Lparen, Str_lit d, Comma, Str_lit i, Rparen] =
   Some (Insert_into ''dag_runs'' [''dt'', ''dag_id''] [d, i])"
  by (simp add: parse_statement_def strip_semicolon_def parse_insert_def parenthesised_def
      parse_names_def parse_literals_def)

lemma parse_delete_eval:
  "parse_statement
     [Word ''delete'', Word ''from'', Word ''dag_runs'', Word ''where'', Word ''dt'', Equals,
      Str_lit d, Word ''and'', Word ''dag_id'', Equals, Str_lit i, Semicolon] =
   Some (Delete_from ''dag_runs'' [(''dt'', d), (''dag_id'', i)])"
  by (simp add: parse_statement_def strip_semicolon_def parse_delete_def)

lemma read_sql_create:
  "read_sql c create_sql =
     Inr (Create_table True ''dag_runs'' [(''dt'', ''date''), (''dag_id'', ''varchar'')]
            [''dt'', ''dag_id''])"
  by (simp add: read_sql_def render_create lex_create parse_create_eval)

lemma read_sql_insert:
  assumes "CHR 0x27 \<notin> set (ds c)" and "CHR 0x27 \<notin> set (run_dag_id c)"
  shows "read_sql c insert_sql =
     Inr (Insert_into ''dag_runs'' [''dt'', ''dag_id''] [ds c, run_dag_id c])"
  unfolding read_sql_def render_insert
  by (simp only: lex_insert [OF assms] parse_insert_eval option.case)

lemma read_sql_delete:
  assumes "CHR 0x27 \<notin> set (ds c)" and "CHR 0x27 \<notin> set (run_dag_id c)"
  shows "read_sql c delete_sql =
     Inr (Delete_from ''dag_runs'' [(''dt'', ds c), (''dag_id'', run_dag_id c)])"
  unfolding read_sql_def render_delete
  by (simp only: lex_delete [OF assms] parse_delete_eval option.case)

lemma run_step_create:
  "run_step dag_with_postgres_operator_v03 c ''create_postgres_table'' db =
     execute (Create_table True ''dag_runs'' [(''dt'', ''date''), (''dag_id'', ''varchar'')]
                [''dt'', ''dag_id'']) db"
  by (simp add: run_step_def step_sql_eval read_sql_create)

lemma run_step_insert:
  assumes "CHR 0x27 \<notin> set (ds c)" and "CHR 0x27 \<notin> set (run_dag_id c)"
  shows "run_step dag_with_postgres_operator_v03 c ''insert_into_table'' db =
     execute (Insert_into ''dag_runs'' [''dt'', ''dag_id''] [ds c, run_dag_id c]) db"
  by (simp add: run_step_def step_sql_eval read_sql_insert [OF assms])

lemma run_step_delete:
  assumes "CHR 0x27 \<notin> set (ds c)" and "CHR 0x27 \<notin> set (run_dag_id c)"
  shows "run_step dag_with_postgres_operator_v03 c ''delete_data_from_table'' db =
     execute (Delete_from ''dag_runs'' [(''dt'', ds c), (''dag_id'', run_dag_id c)]) db"
  by (simp add: run_step_def step_sql_eval read_sql_delete [OF assms])

subsection \<open>The create-table step\<close>

text \<open>
  Where the table is missing the step creates it, empty, with the columns and the
  primary key of the text. The same statement without \<^verbatim>\<open>IF NOT EXISTS\<close> fails on a
  database that has the table.
\<close>

lemma create_step_creates_table:
  assumes "db ''dag_runs'' = None"
  shows "run_step dag_with_postgres_operator_v03 c ''create_postgres_table'' db =
     Inr (db(''dag_runs'' \<mapsto>
       \<lparr>columns = [(''dt'', ''date''), (''dag_id'', ''varchar'')],
        primary_key = [''dt'', ''dag_id''], rows = []\<rparr>))"
  using assms by (simp add: run_step_create)

lemma create_without_clause_fails:
  assumes "db ''dag_runs'' = Some t"
  shows "(case read_sql c ''CREATE TABLE dag_runs (dt DATE, dag_id VARCHAR, PRIMARY KEY (dt, dag_id));'' of
            Inl e \<Rightarrow> Inl e
          | Inr st \<Rightarrow> execute st db) = Inl (Duplicate_table ''dag_runs'')"
  using assms
  by (simp add: read_sql_def lex_simps parse_statement_def strip_semicolon_def parse_create_def
      parenthesised_def is_primary_key_def parse_primary_key_def parse_names_def)

text \<open>
  C9. The SQL text of the create-table step says \<^verbatim>\<open>CREATE TABLE IF NOT EXISTS\<close>, and
  the statement read from it carries the clause and the table name \<^verbatim>\<open>dag_runs\<close>. Run
  on a database in which the table \<^verbatim>\<open>dag_runs\<close> exists, whatever it holds, the step
  succeeds and returns the database as it was; so does running it twice.
\<close>

theorem create_step_on_existing_table:
  assumes "db ''dag_runs'' = Some t"
  shows "step_sql dag_with_postgres_operator_v03 ''create_postgres_table'' = Some create_sql \<and>
         contains create_sql ''CREATE TABLE IF NOT EXISTS dag_runs'' \<and>
         read_sql c create_sql =
           Inr (Create_table True ''dag_runs'' [(''dt'', ''date''), (''dag_id'', ''varchar'')]
                  [''dt'', ''dag_id'']) \<and>
         run_step dag_with_postgres_operator_v03 c ''create_postgres_table'' db = Inr db \<and>
         run_steps dag_with_postgres_operator_v03 c
           [''create_postgres_table'', ''create_postgres_table''] db = Inr db"
proof -
  have "contains create_sql ''CREATE TABLE IF NOT EXISTS dag_runs''" by code_simp
  then show ?thesis using assms by (simp add: step_sql_eval read_sql_create run_step_create)
qed

theorem create_step_on_existing_table_witness:
  "(Map.empty(''dag_runs'' \<mapsto>
      \<lparr>columns = [(''dt'', ''date''), (''dag_id'', ''varchar'')],
       primary_key = [''dt'', ''dag_id''],
       rows = [[Some ''2025-12-16'', Some ''dag_with_postgres_operator_v03'']]\<rparr>)) ''dag_runs'' =
     Some \<lparr>columns = [(''dt'', ''date''), (''dag_id'', ''varchar'')],
           primary_key = [''dt'', ''dag_id''],
           rows = [[Some ''2025-12-16'', Some ''dag_with_postgres_operator_v03'']]\<rparr> \<and>
   run_step dag_with_postgres_operator_v03
     \<lparr>ds = ''2025-12-17'', run_dag_id = ''dag_with_postgres_operator_v03''\<rparr>
     ''create_postgres_table''
     (Map.empty(''dag_runs'' \<mapsto>
        \<lparr>columns = [(''dt'', ''date''), (''dag_id'', ''varchar'')],
         primary_key = [''dt'', ''dag_id''],
         rows = [[Some ''2025-12-16'', Some ''dag_with_postgres_operator_v03'']]\<rparr>)) =
   Inr (Map.empty(''dag_runs'' \<mapsto>
        \<lparr>columns = [(''dt'', ''date''), (''dag_id'', ''varchar'')],
         primary_key = [''dt'', ''dag_id''],
         rows = [[Some ''2025-12-16'', Some ''dag_with_postgres_operator_v03'']]\<rparr>))"
  using create_step_on_existing_table
    [where db = "Map.empty(''dag_runs'' \<mapsto>
        \<lparr>columns = [(''dt'', ''date''), (''dag_id'', ''varchar'')],
         primary_key = [''dt'', ''dag_id''],
         rows = [[Some ''2025-12-16'', Some ''dag_with_postgres_operator_v03'']]\<rparr>)"
       and t = "\<lparr>columns = [(''dt'', ''date''), (''dag_id'', ''varchar'')],
         primary_key = [''dt'', ''dag_id''],
         rows = [[Some ''2025-12-16'', Some ''dag_with_postgres_operator_v03'']]\<rparr>"
       and c = "\<lparr>ds = ''2025-12-17'', run_dag_id = ''dag_with_postgres_operator_v03''\<rparr>"]
  by simp

subsection \<open>Delete, then insert\<close>

lemma satisfies_key:
  assumes "columns t = [(''dt'', ''date''), (''dag_id'', ''varchar'')]"
    and "primary_key t = [''dt'', ''dag_id'']"
  shows "satisfies t [(''dt'', d), (''dag_id'', i)] r \<longleftrightarrow> key_of t r = [Some d, Some i]"
proof (cases r)
  case Nil
  then show ?thesis using assms by (simp add: satisfies_def key_of_def column_value_def)
next
  case (Cons a r')
  then show ?thesis using assms
    by (cases r') (simp_all add: satisfies_def key_of_def column_value_def)
qed

lemma key_of_rows_update: "key_of (t\<lparr>rows := rs\<rparr>) = key_of t"
  by (rule ext) (simp add: key_of_def column_value_def)

lemma execute_delete_key:
  assumes "db ''dag_runs'' = Some t"
    and "columns t = [(''dt'', ''date''), (''dag_id'', ''varchar'')]"
    and "primary_key t = [''dt'', ''dag_id'']"
  shows "execute (Delete_from ''dag_runs'' [(''dt'', d), (''dag_id'', i)]) db =
     Inr (db(''dag_runs'' \<mapsto>
       t\<lparr>rows := filter (\<lambda>r. key_of t r \<noteq> [Some d, Some i]) (rows t)\<rparr>))"
  using assms by (simp add: known_columns_def satisfies_key [OF assms(2,3)])

lemma execute_insert_key:
  assumes "db ''dag_runs'' = Some t"
    and "columns t = [(''dt'', ''date''), (''dag_id'', ''varchar'')]"
    and "primary_key t = [''dt'', ''dag_id'']"
    and "[Some d, Some i] \<notin> set (map (key_of t) (rows t))"
  shows "execute (Insert_into ''dag_runs'' [''dt'', ''dag_id''] [d, i]) db =
     Inr (db(''dag_runs'' \<mapsto> t\<lparr>rows := rows t @ [[Some d, Some i]]\<rparr>))"
proof -
  have r: "map (\<lambda>c. map_of (zip [''dt'', ''dag_id''] [d, i]) (fst c)) (columns t) =
      [Some d, Some i]"
    using assms(2) by simp
  have k: "key_of t [Some d, Some i] = [Some d, Some i]"
    using assms(2,3) by (simp add: key_of_def column_value_def)
  show ?thesis
    using assms(1,4) by (simp add: r k known_columns_def assms(2) Let_def)
qed

lemma delete_then_insert_eval:
  assumes "db ''dag_runs'' = Some t"
    and "columns t = [(''dt'', ''date''), (''dag_id'', ''varchar'')]"
    and "primary_key t = [''dt'', ''dag_id'']"
    and "CHR 0x27 \<notin> set (ds c)" and "CHR 0x27 \<notin> set (run_dag_id c)"
  shows "run_steps dag_with_postgres_operator_v03 c
           [''delete_data_from_table'', ''insert_into_table''] db =
         Inr (db(''dag_runs'' \<mapsto>
           t\<lparr>rows := filter (\<lambda>r. key_of t r \<noteq> [Some (ds c), Some (run_dag_id c)]) (rows t) @
                      [[Some (ds c), Some (run_dag_id c)]]\<rparr>))"
proof -
  let ?k = "[Some (ds c), Some (run_dag_id c)]"
  let ?t1 = "t\<lparr>rows := filter (\<lambda>r. key_of t r \<noteq> ?k) (rows t)\<rparr>"
  let ?db1 = "db(''dag_runs'' \<mapsto> ?t1)"
  have d: "run_step dag_with_postgres_operator_v03 c ''delete_data_from_table'' db = Inr ?db1"
    by (simp only: run_step_delete [OF assms(4,5)] execute_delete_key [where db = db and t = t, OF assms(1,2,3)])
  have h1: "?db1 ''dag_runs'' = Some ?t1" by simp
  have h2: "columns ?t1 = [(''dt'', ''date''), (''dag_id'', ''varchar'')]"
    using assms(2) by simp
  have h3: "primary_key ?t1 = [''dt'', ''dag_id'']"
    using assms(3) by simp
  have h4: "?k \<notin> set (map (key_of ?t1) (rows ?t1))"
    by (auto simp: key_of_rows_update)
  have i: "run_step dag_with_postgres_operator_v03 c ''insert_into_table'' ?db1 =
      Inr (?db1(''dag_runs'' \<mapsto> ?t1\<lparr>rows := rows ?t1 @ [?k]\<rparr>))"
    by (simp only: run_step_insert [OF assms(4,5)] execute_insert_key [where db = "?db1" and t = "?t1", OF h1 h2 h3 h4])
  show ?thesis
    by (simp add: d i)
qed

text \<open>
  C10. Let the table \<^verbatim>\<open>dag_runs\<close> exist with the columns and the primary key the
  create-table step gives it, and with any rows. Take any run date and any workflow
  identifier; they are rendered between single quotes and, as dates and identifiers do,
  contain none. The delete step followed by the insert step succeeds, so the insert never
  meets its own key; the table then holds the rows with other keys unchanged and exactly
  one row with the key of the run; keys that were pairwise different stay so; and running
  the two steps once more returns the same database.
\<close>

theorem delete_then_insert_one_row:
  assumes "db ''dag_runs'' = Some t"
    and "columns t = [(''dt'', ''date''), (''dag_id'', ''varchar'')]"
    and "primary_key t = [''dt'', ''dag_id'']"
    and "CHR 0x27 \<notin> set (ds c)" and "CHR 0x27 \<notin> set (run_dag_id c)"
  shows "\<exists>rs.
     run_steps dag_with_postgres_operator_v03 c
       [''delete_data_from_table'', ''insert_into_table''] db =
       Inr (db(''dag_runs'' \<mapsto> t\<lparr>rows := rs\<rparr>)) \<and>
     rs = filter (\<lambda>r. key_of t r \<noteq> [Some (ds c), Some (run_dag_id c)]) (rows t) @
          [[Some (ds c), Some (run_dag_id c)]] \<and>
     length (filter (\<lambda>r. key_of t r = [Some (ds c), Some (run_dag_id c)]) rs) = 1 \<and>
     (distinct (map (key_of t) (rows t)) \<longrightarrow> distinct (map (key_of t) rs)) \<and>
     run_steps dag_with_postgres_operator_v03 c
       [''delete_data_from_table'', ''insert_into_table'']
       (db(''dag_runs'' \<mapsto> t\<lparr>rows := rs\<rparr>)) =
       Inr (db(''dag_runs'' \<mapsto> t\<lparr>rows := rs\<rparr>))"
proof -
  let ?k = "[Some (ds c), Some (run_dag_id c)]"
  let ?rs = "filter (\<lambda>r. key_of t r \<noteq> ?k) (rows t) @ [?k]"
  let ?t' = "t\<lparr>rows := ?rs\<rparr>"
  let ?db' = "db(''dag_runs'' \<mapsto> ?t')"
  have k: "key_of t ?k = ?k"
    using assms(2,3) by (simp add: key_of_def column_value_def)
  have first: "run_steps dag_with_postgres_operator_v03 c
       [''delete_data_from_table'', ''insert_into_table''] db = Inr ?db'"
    using assms by (rule delete_then_insert_eval)
  have one: "length (filter (\<lambda>r. key_of t r = ?k) ?rs) = 1"
    by (simp add: k)
  have dist: "distinct (map (key_of t) (rows t)) \<longrightarrow> distinct (map (key_of t) ?rs)"
    by (auto simp: k distinct_map_filter)
  have h1: "?db' ''dag_runs'' = Some ?t'" by simp
  have h2: "columns ?t' = [(''dt'', ''date''), (''dag_id'', ''varchar'')]"
    using assms(2) by simp
  have h3: "primary_key ?t' = [''dt'', ''dag_id'']"
    using assms(3) by simp
  have "run_steps dag_with_postgres_operator_v03 c
       [''delete_data_from_table'', ''insert_into_table''] ?db' =
     Inr (?db'(''dag_runs'' \<mapsto>
       ?t'\<lparr>rows := filter (\<lambda>r. key_of ?t' r \<noteq> ?k) (rows ?t') @ [?k]\<rparr>))"
    using h1 h2 h3 assms(4,5) by (rule delete_then_insert_eval)
  then have again: "run_steps dag_with_postgres_operator_v03 c
       [''delete_data_from_table'', ''insert_into_table''] ?db' = Inr ?db'"
    by (simp add: key_of_rows_update k)
  from first one dist again show ?thesis by blast
qed

theorem delete_then_insert_one_row_witness:
  "(Map.empty(''dag_runs'' \<mapsto>
      \<lparr>columns = [(''dt'', ''date''), (''dag_id'', ''varchar'')],
       primary_key = [''dt'', ''dag_id''],
       rows = [[Some ''2025-12-16'', Some ''dag_with_postgres_operator_v03''],
               [Some ''2025-12-17'', Some ''dag_with_postgres_operator_v03'']]\<rparr>)) ''dag_runs'' =
     Some \<lparr>columns = [(''dt'', ''date''), (''dag_id'', ''varchar'')],
           primary_key = [''dt'', ''dag_id''],
           rows = [[Some ''2025-12-16'', Some ''dag_with_postgres_operator_v03''],
                   [Some ''2025-12-17'', Some ''dag_with_postgres_operator_v03'']]\<rparr> \<and>
   CHR 0x27 \<notin> set ''2025-12-16'' \<and>
   CHR 0x27 \<notin> set ''dag_with_postgres_operator_v03'' \<and>
   run_steps dag_with_postgres_operator_v03
     \<lparr>ds = ''2025-12-16'', run_dag_id = ''dag_with_postgres_operator_v03''\<rparr>
     [''delete_data_from_table'', ''insert_into_table'']
     (Map.empty(''dag_runs'' \<mapsto>
        \<lparr>columns = [(''dt'', ''date''), (''dag_id'', ''varchar'')],
         primary_key = [''dt'', ''dag_id''],
         rows = [[Some ''2025-12-16'', Some ''dag_with_postgres_operator_v03''],
                 [Some ''2025-12-17'', Some ''dag_with_postgres_operator_v03'']]\<rparr>)) =
   Inr (Map.empty(''dag_runs'' \<mapsto>
        \<lparr>columns = [(''dt'', ''date''), (''dag_id'', ''varchar'')],
         primary_key = [''dt'', ''dag_id''],
         rows = [[Some ''2025-12-17'', Some ''dag_with_postgres_operator_v03''],
                 [Some ''2025-12-16'', Some ''dag_with_postgres_operator_v03'']]\<rparr>))"
  using delete_then_insert_one_row
    [where db = "Map.empty(''dag_runs'' \<mapsto>
        \<lparr>columns = [(''dt'', ''date''), (''dag_id'', ''varchar'')],
         primary_key = [''dt'', ''dag_id''],
         rows = [[Some ''2025-12-16'', Some ''dag_with_postgres_operator_v03''],
                 [Some ''2025-12-17'', Some ''dag_with_postgres_operator_v03'']]\<rparr>)"
       and t = "\<lparr>columns = [(''dt'', ''date''), (''dag_id'', ''varchar'')],
         primary_key = [''dt'', ''dag_id''],
         rows = [[Some ''2025-12-16'', Some ''dag_with_postgres_operator_v03''],
                 [Some ''2025-12-17'', Some ''dag_with_postgres_operator_v03'']]\<rparr>"
       and c = "\<lparr>ds = ''2025-12-16'', run_dag_id = ''dag_with_postgres_operator_v03''\<rparr>"]
  by (simp add: key_of_def column_value_def)

end
